theory Spec2Isabelle
  imports Main "HOL-Library.Word"
begin

section \<open>Data model\<close>

text \<open>
  The program is \<^verbatim>\<open>src/bg_remover.py\<close>. An image is what the program reads of a
  PIL image: its mode string, its size (width, height) and its pixels in row order. A pixel
  keeps four 8-bit channels; in a mode without alpha channel the fourth one is 255.
\<close>

type_synonym byte = "8 word"

datatype pixel = Pixel (red: byte) (green: byte) (blue: byte) (alpha: byte)

record image =
  mode :: string
  size_im :: "nat \<times> nat"
  pixels :: "pixel list"

text \<open>An uploaded file: \<^verbatim>\<open>file.name\<close> and \<^verbatim>\<open>file.getvalue()\<close>.\<close>

record uploaded_file =
  name :: string
  getvalue :: "byte list"

text \<open>
  The libraries the program calls are parameters of the model. A call that may raise
  returns a sum, \<open>Inl\<close> carrying the text of the exception (\<^verbatim>\<open>str(e)\<close>).
  \<^item> \<open>image_open\<close>: \<^verbatim>\<open>Image.open\<close>, the decoder;
  \<^item> \<open>rembg_remove\<close>: \<^verbatim>\<open>rembg.remove\<close>, the segmentation model, bytes to bytes;
  \<^item> \<open>getcolor\<close>: the colour parser behind \<^verbatim>\<open>Image.new(mode, size, color)\<close>;
  \<^item> \<open>resample\<close>: the pixels that \<^verbatim>\<open>Image.resize\<close> computes for a target size.
\<close>

record env =
  image_open :: "byte list \<Rightarrow> string + image"
  rembg_remove :: "byte list \<Rightarrow> string + byte list"
  getcolor :: "string \<Rightarrow> string + pixel"
  resample :: "image \<Rightarrow> nat \<times> nat \<Rightarrow> pixel list"

text \<open>
  The tuple a task returns, \<^verbatim>\<open>(original, result, name)\<close>. On failure the source
  returns \<^verbatim>\<open>(None, message, None)\<close>, so the middle component is an image or a string.
\<close>

datatype result_val = Img image | Msg string

type_synonym outcome = "image option \<times> result_val \<times> string option"

text \<open>A future holds the file its task was submitted for and what \<^verbatim>\<open>future.result()\<close>
  gives: the returned tuple, or the exception the task raised.\<close>

record future =
  task_arg :: uploaded_file
  fut_result :: "string + outcome"

text \<open>\<^verbatim>\<open>st.session_state\<close>, and the calls made on the page during one batch run.\<close>

record session_state =
  processing :: bool
  results :: "outcome list"

record ui =
  tasks :: "uploaded_file list"
  warnings :: "result_val list"
  errors :: "string list"
  progress :: "(nat \<times> nat) list"
  status :: "string list"

section \<open>Constants\<close>

definition MAX_FILES :: nat where
  "MAX_FILES = 10"

definition MAX_IMAGE_SIZE_MB :: nat where
  "MAX_IMAGE_SIZE_MB = 10"

definition MB_TO_BYTES :: nat where
  "MB_TO_BYTES = 1024 * 1024"

section \<open>Strings and truthiness\<close>

definition digit_char :: "nat \<Rightarrow> char" where
  "digit_char d = ''0123456789'' ! d"

text \<open>\<^verbatim>\<open>str(n)\<close> of a non-negative integer, as an f-string formats it.\<close>

fun str_nat :: "nat \<Rightarrow> string" where
  "str_nat n = (if n < 10 then [digit_char n] else str_nat (n div 10) @ [digit_char (n mod 10)])"

declare str_nat.simps [simp del]

text \<open>Python truth values: \<^verbatim>\<open>None\<close> and the empty string are false, an image is true.\<close>

fun truthy_image :: "image option \<Rightarrow> bool" where
  "truthy_image None = False"
| "truthy_image (Some _) = True"

fun truthy_result :: "result_val \<Rightarrow> bool" where
  "truthy_result (Img _) = True"
| "truthy_result (Msg s) = (s \<noteq> [])"

fun truthy_name :: "string option \<Rightarrow> bool" where
  "truthy_name None = False"
| "truthy_name (Some s) = (s \<noteq> [])"

section \<open>Imaging library\<close>

text \<open>
  \<^verbatim>\<open>Image.convert\<close> between the two modes the program uses: an image that has no
  alpha channel gets alpha 255 everywhere, and converting to a mode without alpha drops it.
\<close>

definition opaque :: "pixel \<Rightarrow> pixel" where
  "opaque p = Pixel (red p) (green p) (blue p) 255"

definition convert :: "image \<Rightarrow> string \<Rightarrow> image" where
  "convert im m =
     im\<lparr>mode := m,
        pixels := (if mode im = ''RGBA'' \<and> m = ''RGBA'' then pixels im
                   else map opaque (pixels im))\<rparr>"

text \<open>\<^verbatim>\<open>Image.new(mode, size, color)\<close>: every pixel is the parsed colour; an unknown
  colour string raises.\<close>

definition new_image :: "env \<Rightarrow> string \<Rightarrow> nat \<times> nat \<Rightarrow> string \<Rightarrow> string + image" where
  "new_image e m sz color =
     (case getcolor e color of
        Inl err \<Rightarrow> Inl err
      | Inr c \<Rightarrow> Inr \<lparr>mode = m, size_im = sz, pixels = replicate (fst sz * snd sz) c\<rparr>)"

text \<open>\<^verbatim>\<open>Image.resize(size)\<close>: the result has the requested size and the mode of the
  source.\<close>

definition resize :: "env \<Rightarrow> image \<Rightarrow> nat \<times> nat \<Rightarrow> image" where
  "resize e im sz = im\<lparr>size_im := sz, pixels := resample e im sz\<rparr>"

text \<open>
  Modelled from the spec: \<^verbatim>\<open>Image.alpha_composite\<close> belongs to the imaging library and
  is not under \<^verbatim>\<open>src/\<close>. The spec gives the blend per pixel as
  \<^verbatim>\<open>out = fg*fg.alpha + bg*(1 - fg.alpha)\<close> with alpha in [0, 1]; on 8-bit channels
  that is \<open>(fg * a + bg * (255 - a)) div 255\<close>. The alpha of the output is the coverage of
  both layers, so the output is opaque over an opaque background. The library refuses
  operands that are not both RGBA or that differ in size.
\<close>

definition blend_channel :: "byte \<Rightarrow> byte \<Rightarrow> byte \<Rightarrow> byte" where
  "blend_channel bg fg a =
     word_of_nat ((unat fg * unat a + unat bg * (255 - unat a)) div 255)"

definition blend_pixel :: "pixel \<Rightarrow> pixel \<Rightarrow> pixel" where
  "blend_pixel bg fg =
     Pixel (blend_channel (red bg) (red fg) (alpha fg))
           (blend_channel (green bg) (green fg) (alpha fg))
           (blend_channel (blue bg) (blue fg) (alpha fg))
           (word_of_nat (unat (alpha fg) + unat (alpha bg) * (255 - unat (alpha fg)) div 255))"

definition alpha_composite :: "image \<Rightarrow> image \<Rightarrow> string + image" where
  "alpha_composite im1 im2 =
     (if mode im1 \<noteq> ''RGBA'' \<or> mode im2 \<noteq> ''RGBA'' then Inl ''image has wrong mode''
      else if size_im im1 \<noteq> size_im im2 then Inl ''images do not match''
      else Inr \<lparr>mode = ''RGBA'', size_im = size_im im1,
                pixels = map2 blend_pixel (pixels im1) (pixels im2)\<rparr>)"

section \<open>Background replacement\<close>

definition remove_background :: "env \<Rightarrow> byte list \<Rightarrow> string + image" where
  "remove_background e image_bytes =
     (case rembg_remove e image_bytes of
        Inl err \<Rightarrow> Inl err
      | Inr result \<Rightarrow>
          (case image_open e result of
             Inl err \<Rightarrow> Inl err
           | Inr im \<Rightarrow> Inr (convert im ''RGBA'')))"

definition add_color_background :: "env \<Rightarrow> image \<Rightarrow> string \<Rightarrow> string + image" where
  "add_color_background e image0 color =
     (let image = (if mode image0 \<noteq> ''RGBA'' then convert image0 ''RGBA'' else image0)
      in case new_image e ''RGBA'' (size_im image) color of
           Inl err \<Rightarrow> Inl err
         | Inr background \<Rightarrow> alpha_composite background image)"

definition add_image_background :: "env \<Rightarrow> image \<Rightarrow> image \<Rightarrow> string + image" where
  "add_image_background e foreground background_img0 =
     (let background_img =
            (if size_im background_img0 \<noteq> size_im foreground
             then resize e background_img0 (size_im foreground)
             else background_img0);
          background = convert background_img ''RGBA''
      in alpha_composite background foreground)"

section \<open>Encoding\<close>



section \<open>The batch\<close>

text \<open>The body of the \<^verbatim>\<open>try\<close> block of \<^verbatim>\<open>process_single_image\<close>; \<open>Inl\<close> is an
  exception that reaches the \<^verbatim>\<open>except\<close> clause.\<close>

definition process_single_image_body ::
  "env \<Rightarrow> string \<Rightarrow> string \<Rightarrow> image option \<Rightarrow> uploaded_file \<Rightarrow> string + outcome" where
  "process_single_image_body e bg_option bg_color bg_image file =
     (if length (getvalue file) > MAX_IMAGE_SIZE_MB * MB_TO_BYTES
      then Inr (None,
                Msg (''Image '' @ name file @ '' exceeds '' @ str_nat MAX_IMAGE_SIZE_MB @ ''MB limit''),
                None)
      else
        case image_open e (getvalue file) of
          Inl err \<Rightarrow> Inl err
        | Inr im \<Rightarrow>
            let original = convert im ''RGBA'' in
            (case remove_background e (getvalue file) of
               Inl err \<Rightarrow> Inl err
             | Inr result \<Rightarrow>
                 if bg_option = ''Color'' then
                   (case add_color_background e result bg_color of
                      Inl err \<Rightarrow> Inl err
                    | Inr r \<Rightarrow> Inr (Some original, Img r, Some (name file)))
                 else
                   (case (if bg_option = ''Image'' then bg_image else None) of
                      Some b \<Rightarrow>
                        (case add_image_background e result b of
                           Inl err \<Rightarrow> Inl err
                         | Inr r \<Rightarrow> Inr (Some original, Img r, Some (name file)))
                    | None \<Rightarrow> Inr (Some original, Img result, Some (name file)))))"

definition process_single_image ::
  "env \<Rightarrow> string \<Rightarrow> string \<Rightarrow> image option \<Rightarrow> uploaded_file \<Rightarrow> outcome" where
  "process_single_image e bg_option bg_color bg_image file =
     (case process_single_image_body e bg_option bg_color bg_image file of
        Inr out \<Rightarrow> out
      | Inl err \<Rightarrow> (None, Msg (''Error processing '' @ name file @ '': '' @ err), None))"

text \<open>\<^verbatim>\<open>executor.submit(process_single_image, file)\<close>. The tasks share no state, and
  the loop below reads the futures in submission order, so each future is the value of its
  task.\<close>

definition submit :: "(uploaded_file \<Rightarrow> outcome) \<Rightarrow> uploaded_file \<Rightarrow> future" where
  "submit task file = \<lparr>task_arg = file, fut_result = Inr (task file)\<rparr>"

text \<open>One turn of \<^verbatim>\<open>for i, future in enumerate(futures)\<close>.\<close>

definition collect_one ::
  "nat \<Rightarrow> nat \<Rightarrow> nat \<Rightarrow> future \<Rightarrow> session_state \<times> ui \<Rightarrow> session_state \<times> ui" where
  "collect_one n_futures n_files i fut s =
     (let (ss, u) = s;
          (ss1, u1) =
            (case fut_result fut of
               Inl err \<Rightarrow> (ss, u\<lparr>errors := errors u @ [''Unexpected error: '' @ err]\<rparr>)
             | Inr (original, result, nm) \<Rightarrow>
                 if truthy_image original \<and> truthy_result result
                 then (ss\<lparr>results := results ss @ [(original, result, nm)]\<rparr>, u)
                 else if truthy_name nm
                 then (ss, u\<lparr>warnings := warnings u @ [result]\<rparr>)
                 else (ss, u))
      in (ss1,
          u1\<lparr>progress := progress u1 @ [(i + 1, n_futures)],
             status := status u1 @
               [''Processed '' @ str_nat (i + 1) @ ''/'' @ str_nat n_files @ '' images'']\<rparr>))"

fun collect ::
  "nat \<Rightarrow> nat \<Rightarrow> nat \<Rightarrow> future list \<Rightarrow> session_state \<times> ui \<Rightarrow> session_state \<times> ui" where
  "collect n_futures n_files i [] s = s"
| "collect n_futures n_files i (fut # rest) s =
     collect n_futures n_files (i + 1) rest (collect_one n_futures n_files i fut s)"

text \<open>The run: \<open>tasks\<close> lists the files handed to \<^verbatim>\<open>executor.submit\<close>, \<open>progress\<close> the
  updates of the bar made in the loop, as (completed, total) for the fraction
  \<^verbatim>\<open>(i + 1) / len(futures)\<close>. The bar is created at 0 and emptied at the end; the elapsed
  time and its closing status line are not part of the model.\<close>

definition process_images_parallel ::
  "env \<Rightarrow> uploaded_file list \<Rightarrow> string \<Rightarrow> string \<Rightarrow> image option \<Rightarrow> session_state
     \<Rightarrow> session_state \<times> ui" where
  "process_images_parallel e uploaded_files bg_option bg_color bg_image ss =
     (let ss0 = ss\<lparr>processing := True, results := []\<rparr>;
          futures = map (submit (process_single_image e bg_option bg_color bg_image)) uploaded_files;
          u0 = \<lparr>tasks = map task_arg futures, warnings = [], errors = [], progress = [],
                status = []\<rparr>;
          (ss1, u1) = collect (length futures) (length uploaded_files) 0 futures (ss0, u0)
      in (ss1\<lparr>processing := False\<rparr>, u1))"

text \<open>The part of \<^verbatim>\<open>display_sidebar\<close> that bounds the batch: the files kept and the
  warning shown.\<close>

definition display_sidebar :: "uploaded_file list \<Rightarrow> uploaded_file list \<times> string list" where
  "display_sidebar uploaded_files =
     (if uploaded_files \<noteq> [] \<and> length uploaded_files > MAX_FILES
      then (take MAX_FILES uploaded_files,
            [''Maximum '' @ str_nat MAX_FILES @ '' files allowed. Only the first '' @
             str_nat MAX_FILES @ '' will be processed.''])
      else (uploaded_files, []))"

text \<open>\<^verbatim>\<open>main\<close>: the button is disabled while a run is in progress or when there is no
  file, and a batch runs only when it was pressed and the list of files is not empty.\<close>

definition main ::
  "env \<Rightarrow> uploaded_file list \<Rightarrow> string \<Rightarrow> string \<Rightarrow> image option \<Rightarrow> bool \<Rightarrow> session_state
     \<Rightarrow> session_state \<times> ui option" where
  "main e uploaded bg_option bg_color bg_image clicked ss =
     (let uploaded_files = fst (display_sidebar uploaded);
          process_btn = (clicked \<and> \<not> (processing ss \<or> uploaded_files = []))
      in if process_btn \<and> uploaded_files \<noteq> []
         then (let (ss1, u) = process_images_parallel e uploaded_files bg_option bg_color bg_image ss
               in (ss1, Some u))
         else (ss, None))"

section \<open>Outcomes\<close>

text \<open>The two shapes of tuple: a success carries both images and the name, a failure
  carries only its message.\<close>

fun is_success :: "outcome \<Rightarrow> bool" where
  "is_success (Some _, Img _, Some _) = True"
| "is_success _ = False"

fun is_failure :: "outcome \<Rightarrow> bool" where
  "is_failure (None, Msg _, None) = True"
| "is_failure _ = False"

definition oversized :: "uploaded_file \<Rightarrow> bool" where
  "oversized file = (length (getvalue file) > MAX_IMAGE_SIZE_MB * MB_TO_BYTES)"

definition fully_opaque :: "image \<Rightarrow> bool" where
  "fully_opaque img = list_all (\<lambda>p. alpha p = 255) (pixels img)"


text \<open>A small environment to run the model on: the decoder reads a one-pixel grey image
  from the first byte and rejects an empty buffer, segmentation returns its input, one colour
  is known, and resampling fills with black.\<close>

definition sample_env :: env where
  "sample_env =
     \<lparr>image_open = (\<lambda>bs. case bs of
                       [] \<Rightarrow> Inl ''cannot identify image file''
                     | b # _ \<Rightarrow> Inr \<lparr>mode = ''RGB'', size_im = (1, 1), pixels = [Pixel b b b 255]\<rparr>),
      rembg_remove = (\<lambda>bs. Inr bs),
      getcolor = (\<lambda>c. if c = ''#FFFFFF'' then Inr (Pixel 255 255 255 255)
                      else Inl ''unknown color specifier''),
      resample = (\<lambda>im sz. replicate (fst sz * snd sz) (Pixel 0 0 0 255))\<rparr>"

definition session0 :: session_state where
  "session0 = \<lparr>processing = False, results = []\<rparr>"

section \<open>Sample inputs\<close>

text \<open>A file of 12 MiB, a file that decodes, and an empty file that the decoder rejects.\<close>

definition big_file :: uploaded_file where
  "big_file = \<lparr>name = ''big.png'', getvalue = replicate 12582912 0\<rparr>"

definition small_file :: uploaded_file where
  "small_file = \<lparr>name = ''cat.png'', getvalue = [7]\<rparr>"

definition broken_file :: uploaded_file where
  "broken_file = \<lparr>name = ''bad.png'', getvalue = []\<rparr>"

text \<open>An RGBA image with every pixel opaque, an RGB image of another size, and an RGBA
  image with a transparent pixel.\<close>

definition opaque_rgba :: image where
  "opaque_rgba =
     \<lparr>mode = ''RGBA'', size_im = (2, 1), pixels = [Pixel 10 20 30 255, Pixel 1 2 3 255]\<rparr>"

definition wide_rgb :: image where
  "wide_rgb =
     \<lparr>mode = ''RGB'', size_im = (3, 1),
      pixels = [Pixel 9 9 9 255, Pixel 8 8 8 255, Pixel 7 7 7 255]\<rparr>"


section \<open>Facts about the batch loop\<close>

lemma MAX_bytes: "MAX_IMAGE_SIZE_MB * MB_TO_BYTES = 10485760"
  by (simp add: MAX_IMAGE_SIZE_MB_def MB_TO_BYTES_def)

lemma str_nat_10: "str_nat 10 = ''10''"
  by (simp add: str_nat.simps digit_char_def)

lemma str_nat_MAX: "str_nat MAX_IMAGE_SIZE_MB = ''10''"
  by (simp add: MAX_IMAGE_SIZE_MB_def str_nat_10)

lemma process_single_image_shape:
  "is_success (process_single_image e opt col bg f) \<or> is_failure (process_single_image e opt col bg f)"
  by (simp add: process_single_image_def process_single_image_body_def Let_def
      split: sum.splits option.splits)



lemma success_truthy: "is_success (a, r, nm) \<Longrightarrow> truthy_image a \<and> truthy_result r"
  by (cases "(a, r, nm)" rule: is_success.cases) simp_all

lemma failure_falsy: "is_failure (a, r, nm) \<Longrightarrow> \<not> truthy_image a \<and> \<not> truthy_name nm"
  by (cases "(a, r, nm)" rule: is_failure.cases) simp_all

lemma collect_one_submit:
  assumes "is_success (task f) \<or> is_failure (task f)"
  shows "collect_one n m i (submit task f) (ss, u) =
           (ss\<lparr>results := results ss @ (if is_success (task f) then [task f] else [])\<rparr>,
            u\<lparr>progress := progress u @ [(i + 1, n)],
              status := status u @
                [''Processed '' @ str_nat (i + 1) @ ''/'' @ str_nat m @ '' images'']\<rparr>)"
proof (cases "task f")
  case (fields a r nm)
  show ?thesis
  proof (cases "is_success (task f)")
    case True
    with fields success_truthy[of a r nm] show ?thesis
      by (simp add: collect_one_def submit_def)
  next
    case False
    with assms have "is_failure (task f)" by simp
    with fields failure_falsy[of a r nm] False show ?thesis
      by (simp add: collect_one_def submit_def)
  qed
qed

lemma collect_submit:
  assumes "\<And>f. is_success (task f) \<or> is_failure (task f)"
  shows "collect n m i (map (submit task) files) (ss, u) =
           (ss\<lparr>results := results ss @ filter is_success (map task files)\<rparr>,
            u\<lparr>progress := progress u @ map (\<lambda>k. (k + 1, n)) [i ..< i + length files],
              status := status u @
                map (\<lambda>k. ''Processed '' @ str_nat (k + 1) @ ''/'' @ str_nat m @ '' images'')
                  [i ..< i + length files]\<rparr>)"
proof (induction files arbitrary: i ss u)
  case Nil
  then show ?case by simp
next
  case (Cons f rest)
  have upt: "[i ..< i + length (f # rest)] = i # [Suc i ..< Suc i + length rest]"
    using upt_conv_Cons[of i "i + Suc (length rest)"] by simp
  show ?case
    by (simp only: list.map collect.simps collect_one_submit[OF assms] Cons.IH upt)
       (simp del: upt_Suc)
qed

lemma process_images_parallel_eq:
  "process_images_parallel e files opt col bg ss =
     (ss\<lparr>processing := False,
         results := filter is_success (map (process_single_image e opt col bg) files)\<rparr>,
      \<lparr>tasks = files, warnings = [], errors = [],
       progress = map (\<lambda>k. (k + 1, length files)) [0 ..< length files],
       status = map (\<lambda>k. ''Processed '' @ str_nat (k + 1) @ ''/'' @ str_nat (length files) @ '' images'')
                  [0 ..< length files]\<rparr>)"
  by (simp add: process_images_parallel_def Let_def
      collect_submit[where task = "process_single_image e opt col bg", OF process_single_image_shape]
      submit_def comp_def)

lemma oversized_outcome:
  "oversized file \<Longrightarrow>
     process_single_image e opt col bg file =
       (None, Msg (''Image '' @ name file @ '' exceeds 10MB limit''), None)"
  by (simp add: oversized_def process_single_image_def process_single_image_body_def str_nat_MAX)

lemma last_progress:
  "files \<noteq> [] \<Longrightarrow>
     last (progress (snd (process_images_parallel e files opt col bg ss))) =
       (length files, length files)"
  by (simp add: process_images_parallel_eq last_map)

lemma warnings_never_shown:
  "warnings (snd (process_images_parallel e files opt col bg ss)) = []"
  by (simp add: process_images_parallel_eq)


text \<open>Where an exception can come from inside a task: the decoder, the segmentation, the
  compositing.\<close>

lemma decode_error_raises:
  "\<not> oversized file \<Longrightarrow> image_open e (getvalue file) = Inl err \<Longrightarrow>
     process_single_image_body e opt col bg file = Inl err"
  by (simp add: process_single_image_body_def oversized_def)

lemma segmentation_error_raises:
  "\<not> oversized file \<Longrightarrow> image_open e (getvalue file) = Inr im \<Longrightarrow>
   remove_background e (getvalue file) = Inl err \<Longrightarrow>
     process_single_image_body e opt col bg file = Inl err"
  by (simp add: process_single_image_body_def oversized_def)

lemma compositing_error_raises:
  "\<not> oversized file \<Longrightarrow> image_open e (getvalue file) = Inr im \<Longrightarrow>
   remove_background e (getvalue file) = Inr seg \<Longrightarrow>
   add_color_background e seg col = Inl err \<Longrightarrow>
     process_single_image_body e ''Color'' col bg file = Inl err"
  by (simp add: process_single_image_body_def oversized_def)

section \<open>Facts about the sample inputs\<close>

lemma oversized_big_file: "oversized big_file"
  by (simp add: oversized_def big_file_def MAX_bytes)

lemma name_big_file: "name big_file = ''big.png''"
  by (simp add: big_file_def)

lemma not_oversized_small_file: "\<not> oversized small_file"
  by (simp add: oversized_def small_file_def MAX_bytes)

lemma small_file_outcome:
  "process_single_image sample_env ''Transparent'' ''#FFFFFF'' None small_file =
     (Some \<lparr>mode = ''RGBA'', size_im = (1, 1), pixels = [Pixel 7 7 7 255]\<rparr>,
      Img \<lparr>mode = ''RGBA'', size_im = (1, 1), pixels = [Pixel 7 7 7 255]\<rparr>,
      Some ''cat.png'')"
  by (simp add: process_single_image_def process_single_image_body_def small_file_def
      sample_env_def remove_background_def convert_def opaque_def MAX_bytes)

lemma broken_file_body:
  "process_single_image_body sample_env ''Transparent'' ''#FFFFFF'' None broken_file =
     Inl ''cannot identify image file''"
  by (simp add: process_single_image_body_def broken_file_def sample_env_def MAX_bytes)

lemma main_sample:
  "main sample_env [small_file, broken_file] ''Transparent'' ''#FFFFFF'' None True session0 =
     (fst (process_images_parallel sample_env [small_file, broken_file]
             ''Transparent'' ''#FFFFFF'' None session0),
      Some (snd (process_images_parallel sample_env [small_file, broken_file]
                   ''Transparent'' ''#FFFFFF'' None session0)))"
  by (simp add: main_def display_sidebar_def MAX_FILES_def session0_def Let_def
      split: prod.splits)

section \<open>Facts about compositing\<close>

lemma blend_channel_opaque: "blend_channel bg fg 255 = fg"
  by (simp add: blend_channel_def)

lemma blend_pixel_opaque: "alpha fg = 255 \<Longrightarrow> blend_pixel bg fg = fg"
  by (cases fg) (simp add: blend_pixel_def blend_channel_opaque)

lemma map2_blend_opaque:
  "list_all (\<lambda>p. alpha p = 255) ps \<Longrightarrow> length bs = length ps \<Longrightarrow>
     map2 blend_pixel bs ps = ps"
proof (induction ps arbitrary: bs)
  case Nil
  then show ?case by simp
next
  case (Cons p ps)
  then obtain b bs' where "bs = b # bs'" by (cases bs) auto
  with Cons show ?case by (simp add: blend_pixel_opaque)
qed

lemma opaque_id: "alpha p = 255 \<Longrightarrow> opaque p = p"
  by (cases p) (simp add: opaque_def)

lemma map_opaque_id: "list_all (\<lambda>p. alpha p = 255) ps \<Longrightarrow> map opaque ps = ps"
  by (induction ps) (simp_all add: opaque_id)

lemma convert_opaque: "fully_opaque im \<Longrightarrow> pixels (convert im m) = pixels im"
  by (simp add: convert_def fully_opaque_def map_opaque_id)

lemma alpha_composite_size:
  "mode bg = ''RGBA'' \<Longrightarrow> mode fg = ''RGBA'' \<Longrightarrow> size_im bg = size_im fg \<Longrightarrow>
     \<exists>out. alpha_composite bg fg = Inr out \<and> size_im out = size_im fg \<and> mode out = ''RGBA''"
  by (simp add: alpha_composite_def)

text \<open>The foreground a task hands to the compositing step always has an alpha channel.\<close>

lemma remove_background_mode: "remove_background e bs = Inr im \<Longrightarrow> mode im = ''RGBA''"
  by (auto simp: remove_background_def convert_def split: sum.splits)

section \<open>Facts about the sidebar, the entry point and the progress counter\<close>



lemma main_Some:
  assumes "main e files opt col bg clicked ss = (ss', Some u)"
  shows "fst (display_sidebar files) \<noteq> [] \<and>
         ss' = fst (process_images_parallel e (fst (display_sidebar files)) opt col bg ss) \<and>
         u = snd (process_images_parallel e (fst (display_sidebar files)) opt col bg ss)"
  using assms by (auto simp: main_def Let_def split: prod.splits if_splits)

lemma filter_last_index: "0 < n \<Longrightarrow> filter (\<lambda>k. Suc k = n) [0 ..< n] = [n - 1]"
proof (cases n)
  case 0
  assume "0 < n"
  with 0 show ?thesis by simp
next
  case (Suc m)
  have "filter (\<lambda>k. Suc k = Suc m) [0 ..< m] = []"
    by (auto simp: filter_empty_conv)
  with Suc show ?thesis by simp
qed

lemma progress_of_batch:
  "progress (snd (process_images_parallel e files opt col bg ss)) =
     map (\<lambda>k. (k + 1, length files)) [0 ..< length files]"
  by (simp add: process_images_parallel_eq)

lemma sorted_progress: "sorted_wrt (<) (map fst (map (\<lambda>k. (k + 1, n :: nat)) [0 ..< n]))"
proof -
  have "map fst (map (\<lambda>k. (k + 1, n)) [0 ..< n]) = map Suc [0 ..< n]"
    by (simp add: comp_def)
  also have "\<dots> = [1 ..< Suc n]"
    by (simp add: map_Suc_upt)
  finally show ?thesis by (simp del: upt_Suc)
qed

lemma reaches_total_once:
  "0 < n \<Longrightarrow>
     filter (\<lambda>p. fst p = snd p) (map (\<lambda>k. (k + 1, n :: nat)) [0 ..< n]) = [(n, n)]"
  by (simp add: filter_map comp_def filter_last_index)

section \<open>The claims\<close>

text \<open>
  C1 (every failed image yields a warning that names the file; no failure is dropped).
  The loop shows a warning only under \<^verbatim>\<open>elif name:\<close>, and a failed task returns
  \<^verbatim>\<open>None\<close> as its name. For a batch holding one file of 12 MiB the task returns the
  message "Image big.png exceeds 10MB limit", and the run shows no warning, no error and
  no result: the failure is dropped.
\<close>

theorem oversized_failure_not_reported:
  "process_single_image sample_env ''Transparent'' ''#FFFFFF'' None big_file =
     (None, Msg ''Image big.png exceeds 10MB limit'', None) \<and>
   warnings (snd (process_images_parallel sample_env [big_file]
                    ''Transparent'' ''#FFFFFF'' None session0)) = [] \<and>
   errors (snd (process_images_parallel sample_env [big_file]
                  ''Transparent'' ''#FFFFFF'' None session0)) = [] \<and>
   results (fst (process_images_parallel sample_env [big_file]
                   ''Transparent'' ''#FFFFFF'' None session0)) = []"
  using oversized_outcome[OF oversized_big_file, of sample_env "''Transparent''" "''#FFFFFF''" None]
  by (simp add: process_images_parallel_eq name_big_file)



text \<open>
  C3 as stated (an oversized image fails before submission, is never submitted as a task,
  and the final progress counts the admitted images only) does not hold: in a batch of a
  good file and a file of 12 MiB, the oversized file is among the submitted tasks and the
  progress ends at (2, 2), while one file only is within the limit.
\<close>

theorem oversized_submitted_counterexample:
  "oversized big_file \<and> \<not> oversized small_file \<and>
   big_file \<in> set (tasks (snd (process_images_parallel sample_env [small_file, big_file]
                                 ''Transparent'' ''#FFFFFF'' None session0))) \<and>
   last (progress (snd (process_images_parallel sample_env [small_file, big_file]
                          ''Transparent'' ''#FFFFFF'' None session0))) = (2, 2)"
  using last_progress[of "[small_file, big_file]" sample_env "''Transparent''" "''#FFFFFF''"
      None session0]
  by (simp add: oversized_big_file not_oversized_small_file process_images_parallel_eq)

text \<open>
  C3, amended: every uploaded file, oversized or not, is submitted as a task. The task of an
  oversized file returns the failure tuple with the message "Image <name> exceeds 10MB
  limit" from the size check at its start, whatever the decoder and the segmentation would
  do, and the final progress count is the number of all submitted files.
\<close>

theorem oversized_fails_inside_task:
  assumes "oversized file" and "file \<in> set files"
  shows "process_single_image e opt col bg file =
           (None, Msg (''Image '' @ name file @ '' exceeds 10MB limit''), None) \<and>
         is_failure (process_single_image e opt col bg file) \<and>
         tasks (snd (process_images_parallel e files opt col bg ss)) = files \<and>
         file \<in> set (tasks (snd (process_images_parallel e files opt col bg ss))) \<and>
         last (progress (snd (process_images_parallel e files opt col bg ss))) =
           (length files, length files)"
proof -
  from assms(2) have ne: "files \<noteq> []" by auto
  show ?thesis
    using assms(2) last_progress[OF ne, of e opt col bg ss]
    by (simp add: oversized_outcome[OF assms(1)] process_images_parallel_eq)
qed

theorem oversized_fails_inside_task_witness:
  "oversized big_file \<and> big_file \<in> set [small_file, big_file] \<and>
   process_single_image sample_env ''Color'' ''#FFFFFF'' None big_file =
     (None, Msg ''Image big.png exceeds 10MB limit'', None) \<and>
   tasks (snd (process_images_parallel sample_env [small_file, big_file]
                 ''Color'' ''#FFFFFF'' None session0)) = [small_file, big_file] \<and>
   last (progress (snd (process_images_parallel sample_env [small_file, big_file]
                          ''Color'' ''#FFFFFF'' None session0))) = (2, 2)"
proof -
  have h: "big_file \<in> set [small_file, big_file]" by simp
  show ?thesis
    using oversized_fails_inside_task[OF oversized_big_file h, of sample_env "''Color''"
        "''#FFFFFF''" None session0]
    by (simp add: oversized_big_file name_big_file)
qed

text \<open>
  C4 (an exception inside a task becomes a failure outcome with the file name and a
  message; siblings and the batch complete). When the body of a task raises with text
  \<open>err\<close>, the task returns the failure tuple whose message is
  "Error processing <name>: <err>". Wherever the file stands in the batch, the results
  are the successes of the files before and after it, no exception reaches the loop, the
  loop turns once per file up to (N, N), and the run ends with the processing flag off.
\<close>

theorem task_exception_becomes_failure:
  assumes "process_single_image_body e opt col bg file = Inl err"
  shows "process_single_image e opt col bg file =
           (None, Msg (''Error processing '' @ name file @ '': '' @ err), None) \<and>
         is_failure (process_single_image e opt col bg file) \<and>
         results (fst (process_images_parallel e (before @ file # after) opt col bg ss)) =
           filter is_success (map (process_single_image e opt col bg) before) @
           filter is_success (map (process_single_image e opt col bg) after) \<and>
         errors (snd (process_images_parallel e (before @ file # after) opt col bg ss)) = [] \<and>
         length (progress (snd (process_images_parallel e (before @ file # after) opt col bg ss))) =
           length before + 1 + length after \<and>
         last (progress (snd (process_images_parallel e (before @ file # after) opt col bg ss))) =
           (length before + 1 + length after, length before + 1 + length after) \<and>
         \<not> processing (fst (process_images_parallel e (before @ file # after) opt col bg ss))"
proof -
  have out: "process_single_image e opt col bg file =
               (None, Msg (''Error processing '' @ name file @ '': '' @ err), None)"
    using assms by (simp add: process_single_image_def)
  have ne: "before @ file # after \<noteq> []" by simp
  show ?thesis
    using last_progress[OF ne, of e opt col bg ss]
    by (simp add: out process_images_parallel_eq)
qed

theorem task_exception_becomes_failure_witness:
  "process_single_image sample_env ''Transparent'' ''#FFFFFF'' None broken_file =
     (None, Msg ''Error processing bad.png: cannot identify image file'', None) \<and>
   results (fst (process_images_parallel sample_env [small_file, broken_file, small_file]
                   ''Transparent'' ''#FFFFFF'' None session0)) =
     [process_single_image sample_env ''Transparent'' ''#FFFFFF'' None small_file,
      process_single_image sample_env ''Transparent'' ''#FFFFFF'' None small_file] \<and>
   last (progress (snd (process_images_parallel sample_env [small_file, broken_file, small_file]
                   ''Transparent'' ''#FFFFFF'' None session0))) = (3, 3)"
  using task_exception_becomes_failure[OF broken_file_body, of "[small_file]" "[small_file]"
      session0]
  by (simp add: small_file_outcome broken_file_def)

text \<open>
  C5 (a fully opaque foreground composited over a colour background keeps its pixels).
  For a foreground whose pixels all have alpha 255 and whose pixel count fits its size,
  and a colour string the parser accepts, \<open>add_color_background\<close> returns an image with
  the pixels and the size of the foreground.
\<close>

theorem opaque_foreground_over_color:
  assumes "fully_opaque fg"
    and "length (pixels fg) = fst (size_im fg) * snd (size_im fg)"
    and "getcolor e color = Inr c"
  shows "\<exists>out. add_color_background e fg color = Inr out \<and>
               pixels out = pixels fg \<and> size_im out = size_im fg"
proof -
  let ?image = "if mode fg \<noteq> ''RGBA'' then convert fg ''RGBA'' else fg"
  have px: "pixels ?image = pixels fg"
    using assms(1) by (simp add: convert_opaque)
  have sz: "size_im ?image = size_im fg" and md: "mode ?image = ''RGBA''"
    by (simp_all add: convert_def)
  have "map2 blend_pixel (replicate (fst (size_im fg) * snd (size_im fg)) c) (pixels fg) =
          pixels fg"
    using assms(1,2) by (intro map2_blend_opaque) (simp_all add: fully_opaque_def)
  then show ?thesis
    using assms(3) px sz md
    by (simp add: add_color_background_def new_image_def alpha_composite_def Let_def)
qed

theorem opaque_foreground_over_color_witness:
  "fully_opaque opaque_rgba \<and>
   length (pixels opaque_rgba) = fst (size_im opaque_rgba) * snd (size_im opaque_rgba) \<and>
   getcolor sample_env ''#FFFFFF'' = Inr (Pixel 255 255 255 255) \<and>
   (\<exists>out. add_color_background sample_env opaque_rgba ''#FFFFFF'' = Inr out \<and>
          pixels out = pixels opaque_rgba \<and> size_im out = size_im opaque_rgba)"
proof -
  have h1: "fully_opaque opaque_rgba"
    by (simp add: fully_opaque_def opaque_rgba_def)
  have h2: "length (pixels opaque_rgba) = fst (size_im opaque_rgba) * snd (size_im opaque_rgba)"
    by (simp add: opaque_rgba_def)
  have h3: "getcolor sample_env ''#FFFFFF'' = Inr (Pixel 255 255 255 255)"
    by (simp add: sample_env_def)
  show ?thesis
    using h1 h2 h3 opaque_foreground_over_color[OF h1 h2 h3] by blast
qed

text \<open>
  C6 (a background image of another size is resized to the foreground's size first; the
  output has the foreground's dimensions). For a foreground with an alpha channel, which
  is what a task passes, \<open>add_image_background\<close> returns an image of the foreground's size;
  when the sizes differ the background that is composited is the resized one, whose size
  is the foreground's, and when they agree it is the background as given.
\<close>

theorem image_background_resized:
  assumes "mode fg = ''RGBA''"
  shows "(\<exists>out. add_image_background e fg bg = Inr out \<and> size_im out = size_im fg) \<and>
         (size_im bg \<noteq> size_im fg \<longrightarrow>
            size_im (resize e bg (size_im fg)) = size_im fg \<and>
            add_image_background e fg bg =
              alpha_composite (convert (resize e bg (size_im fg)) ''RGBA'') fg) \<and>
         (size_im bg = size_im fg \<longrightarrow>
            add_image_background e fg bg = alpha_composite (convert bg ''RGBA'') fg)"
proof -
  let ?b = "if size_im bg \<noteq> size_im fg then resize e bg (size_im fg) else bg"
  have sz: "size_im (convert ?b ''RGBA'') = size_im fg"
    by (simp add: convert_def resize_def)
  have md: "mode (convert ?b ''RGBA'') = ''RGBA''"
    by (simp add: convert_def)
  have eq: "add_image_background e fg bg = alpha_composite (convert ?b ''RGBA'') fg"
    by (simp add: add_image_background_def Let_def)
  from alpha_composite_size[OF md assms sz] eq
  have "\<exists>out. add_image_background e fg bg = Inr out \<and> size_im out = size_im fg"
    by auto
  moreover have "size_im (resize e bg (size_im fg)) = size_im fg"
    by (simp add: resize_def)
  ultimately show ?thesis using eq by simp
qed

theorem image_background_resized_witness:
  "mode opaque_rgba = ''RGBA'' \<and> size_im wide_rgb \<noteq> size_im opaque_rgba \<and>
   (\<exists>out. add_image_background sample_env opaque_rgba wide_rgb = Inr out \<and>
          size_im out = size_im opaque_rgba)"
proof -
  have h: "mode opaque_rgba = ''RGBA''" by (simp add: opaque_rgba_def)
  have d: "size_im wide_rgb \<noteq> size_im opaque_rgba" by (simp add: opaque_rgba_def wide_rgb_def)
  show ?thesis
    using h d image_background_resized[OF h, of sample_env wide_rgb] by blast
qed






text \<open>
  C9 (the progress signals (completed, total) increase strictly, one per task, and reach
  completed = total exactly once). In every run that \<open>main\<close> starts the batch is not
  empty, the completed counts are 1, 2, ..., N for the N submitted tasks, every signal
  carries the total N, and exactly one signal, the last, has completed = total.
\<close>

theorem progress_counts_up:
  assumes "main e files opt col bg clicked ss = (ss', Some u)"
  shows "tasks u \<noteq> [] \<and>
         length (progress u) = length (tasks u) \<and>
         map fst (progress u) = [1 ..< Suc (length (tasks u))] \<and>
         sorted_wrt (<) (map fst (progress u)) \<and>
         (\<forall>p \<in> set (progress u). snd p = length (tasks u)) \<and>
         filter (\<lambda>p. fst p = snd p) (progress u) = [(length (tasks u), length (tasks u))] \<and>
         last (progress u) = (length (tasks u), length (tasks u))"
proof -
  let ?fs = "fst (display_sidebar files)"
  from main_Some[OF assms] have ne: "?fs \<noteq> []"
    and u: "u = snd (process_images_parallel e ?fs opt col bg ss)" by simp_all
  have t: "tasks u = ?fs" by (simp add: u process_images_parallel_eq)
  have p: "progress u = map (\<lambda>k. (k + 1, length ?fs)) [0 ..< length ?fs]"
    by (simp add: u progress_of_batch)
  have pos: "0 < length ?fs" using ne by simp
  have m: "map fst (progress u) = [1 ..< Suc (length ?fs)]"
    by (simp add: p comp_def map_Suc_upt del: upt_Suc)
  have s: "sorted_wrt (<) (map fst (progress u))"
    unfolding p by (rule sorted_progress)
  have f: "filter (\<lambda>p. fst p = snd p) (progress u) = [(length ?fs, length ?fs)]"
    unfolding p by (rule reaches_total_once[OF pos])
  have l: "last (progress u) = (length ?fs, length ?fs)"
    using ne by (simp add: p last_map)
  have a: "\<forall>q \<in> set (progress u). snd q = length ?fs"
    by (auto simp: p)
  show ?thesis
    using ne m s f l a by (simp add: t p)
qed

theorem progress_counts_up_witness:
  "progress (snd (process_images_parallel sample_env [small_file, broken_file]
                    ''Transparent'' ''#FFFFFF'' None session0)) = [(1, 2), (2, 2)] \<and>
   filter (\<lambda>p. fst p = snd p)
     (progress (snd (process_images_parallel sample_env [small_file, broken_file]
                    ''Transparent'' ''#FFFFFF'' None session0))) = [(2, 2)]"
  using progress_counts_up[OF main_sample]
  by (simp add: process_images_parallel_eq)

text \<open>
  C10 (with the option Image and no background bitmap, the task returns the segmentation
  result unchanged). With \<open>bg_image\<close> absent, a task under the option Image returns what
  it returns under the option Transparent; when the file is within the size limit and
  decoding and segmentation succeed, that is the decoded original, the segmentation
  result as it is, and the file name.
\<close>

theorem image_option_without_background:
  "process_single_image e ''Image'' col None file =
     process_single_image e ''Transparent'' col None file \<and>
   (\<not> oversized file \<and> image_open e (getvalue file) = Inr im \<and>
    remove_background e (getvalue file) = Inr seg \<longrightarrow>
      process_single_image e ''Image'' col None file =
        (Some (convert im ''RGBA''), Img seg, Some (name file)))"
  by (auto simp: process_single_image_def process_single_image_body_def oversized_def Let_def
      split: sum.splits)

theorem image_option_without_background_witness:
  "\<not> oversized small_file \<and>
   image_open sample_env (getvalue small_file) =
     Inr \<lparr>mode = ''RGB'', size_im = (1, 1), pixels = [Pixel 7 7 7 255]\<rparr> \<and>
   remove_background sample_env (getvalue small_file) =
     Inr \<lparr>mode = ''RGBA'', size_im = (1, 1), pixels = [Pixel 7 7 7 255]\<rparr> \<and>
   process_single_image sample_env ''Image'' ''#FFFFFF'' None small_file =
     (Some \<lparr>mode = ''RGBA'', size_im = (1, 1), pixels = [Pixel 7 7 7 255]\<rparr>,
      Img \<lparr>mode = ''RGBA'', size_im = (1, 1), pixels = [Pixel 7 7 7 255]\<rparr>,
      Some ''cat.png'')"
proof -
  have a: "image_open sample_env (getvalue small_file) =
             Inr \<lparr>mode = ''RGB'', size_im = (1, 1), pixels = [Pixel 7 7 7 255]\<rparr>"
    by (simp add: sample_env_def small_file_def)
  have b: "remove_background sample_env (getvalue small_file) =
             Inr \<lparr>mode = ''RGBA'', size_im = (1, 1), pixels = [Pixel 7 7 7 255]\<rparr>"
    by (simp add: remove_background_def sample_env_def small_file_def convert_def opaque_def)
  have c: "name small_file = ''cat.png''" by (simp add: small_file_def)
  have "process_single_image sample_env ''Image'' ''#FFFFFF'' None small_file =
          (Some (convert \<lparr>mode = ''RGB'', size_im = (1, 1), pixels = [Pixel 7 7 7 255]\<rparr> ''RGBA''),
           Img \<lparr>mode = ''RGBA'', size_im = (1, 1), pixels = [Pixel 7 7 7 255]\<rparr>,
           Some (name small_file))"
    using not_oversized_small_file a b
      image_option_without_background[of sample_env "''#FFFFFF''" small_file
        "\<lparr>mode = ''RGB'', size_im = (1, 1), pixels = [Pixel 7 7 7 255]\<rparr>"
        "\<lparr>mode = ''RGBA'', size_im = (1, 1), pixels = [Pixel 7 7 7 255]\<rparr>"]
    by blast
  then show ?thesis
    using not_oversized_small_file a b by (simp add: c convert_def opaque_def)
qed

end
